theory Spec2Isabelle
  imports Main
begin

section \<open>The lint rule \<open>no cycle import in es6\<close>\<close>

text \<open>
  The rule module binds three names when it is loaded (\<open>resolve\<close>, \<open>cwd\<close>,
  \<open>isAbsolute\<close>) and exports \<open>create\<close>, which the lint engine calls once per
  file with a context object and which answers with a visitor object: a table from node
  types to handlers. The engine, the \<open>process\<close> and \<open>path\<close> modules and the syntax
  tree are not part of the rule; they appear here as data handed to it.
\<close>

subsection \<open>Values of the host language\<close>

text \<open>The exceptions a step of the rule can throw.\<close>

datatype js_error = TypeError | SystemError

text \<open>
  Numbers are IEEE doubles. The rule never computes with one, so the type is left
  uninterpreted.
\<close>

typedecl js_number

datatype js_value =
    JUndefined
  | JNull
  | JBoolean bool
  | JNumber js_number
  | JString string
  | JRegExp string string

subsection \<open>Syntax tree nodes\<close>

text \<open>
  \<open>Literal = SimpleLiteral | RegExpLiteral\<close>. A simple literal has a \<open>value\<close>
  (string, boolean, number or null) and an optional \<open>raw\<close>; a regular expression
  literal has an optional \<open>value\<close>, a \<open>regex\<close> with pattern and flags and an
  optional \<open>raw\<close>.
\<close>

datatype literal =
    SimpleLiteral js_value "string option"
  | RegExpLiteral "js_value option" string string "string option"

text \<open>The property read \<open>lit.value\<close>: a property that is absent reads as undefined.\<close>

fun literal_value :: "literal \<Rightarrow> js_value" where
  "literal_value (SimpleLiteral v r) = v"
| "literal_value (RegExpLiteral None p f r) = JUndefined"
| "literal_value (RegExpLiteral (Some v) p f r) = v"

text \<open>
  A node as the rule sees it: its \<open>type\<close> tag, and its \<open>source\<close> property, which
  only module declarations have (\<open>None\<close> is an absent or null property).
\<close>

record node =
  node_type :: string
  source :: "literal option"

text \<open>
  \<open>interface ImportDeclaration { type: "ImportDeclaration"; specifiers: ...; source: Literal }\<close>:
  the tag is fixed and the source is always there.
\<close>

definition is_ImportDeclaration :: "node \<Rightarrow> bool" where
  "is_ImportDeclaration n = (node_type n = ''ImportDeclaration'' \<and> source n \<noteq> None)"

text \<open>A node conforms to the declarations when the tag \<open>ImportDeclaration\<close> implies a source.\<close>

definition conforms :: "node \<Rightarrow> bool" where
  "conforms n = (node_type n \<noteq> ''ImportDeclaration'' \<or> source n \<noteq> None)"

subsection \<open>The lint engine's side\<close>

text \<open>
  A report descriptor, and the problems the engine has collected so far.
  \<open>context.report(descriptor)\<close> is the engine's method: it maps the collected
  problems to new ones. \<open>context.getFilename()\<close> answers the name of the file
  being linted.
\<close>

record descriptor =
  message :: string

type_synonym problems = "descriptor list"

record rule_context =
  report :: "descriptor \<Rightarrow> problems \<Rightarrow> problems"
  getFilename :: string

type_synonym handler = "node \<Rightarrow> problems \<Rightarrow> js_error + problems"

type_synonym visitor = "string \<rightharpoonup> handler"

subsection \<open>Loading the module\<close>

text \<open>
  What the module asks of the runtime while it loads: \<open>require.resolve\<close>,
  \<open>require("process").cwd()\<close> (\<open>None\<close> when the call throws, as it does when the
  working directory is gone) and \<open>require("path").isAbsolute\<close>. The last is a
  library function of one argument, the path string; which strings it accepts (the POSIX
  or the Windows convention) is left open, so it is a parameter of type
  \<open>string \<Rightarrow> bool\<close>.
\<close>

record runtime =
  require_resolve :: "string \<Rightarrow> js_error + string"
  process_cwd :: "string option"
  path_isAbsolute :: "string \<Rightarrow> bool"

text \<open>The module's three top-level constants.\<close>

record rule_module =
  resolve :: "string \<Rightarrow> js_error + string"
  cwd :: string
  isAbsolute :: "string \<Rightarrow> bool"

text \<open>
  \<^verbatim>\<open>
  const { resolve } = require
  const cwd = require("process").cwd()
  const { isAbsolute } = require("path")
  \<close>
\<close>

definition load_module :: "runtime \<Rightarrow> js_error + rule_module" where
  "load_module rt =
     (case process_cwd rt of
        None \<Rightarrow> Inl SystemError
      | Some dir \<Rightarrow>
          Inr \<lparr>resolve = require_resolve rt, cwd = dir, isAbsolute = path_isAbsolute rt\<rparr>)"

subsection \<open>The rule\<close>

text \<open>
  The handler is a closure: the module's constants, \<open>create\<close>'s parameter and its
  local \<open>fileName\<close> are in scope and are its first three arguments here.
  \<^verbatim>\<open>
  ImportDeclaration(node) {
      const importName = node.source.value;
  }
  \<close>
  Reading \<open>.value\<close> of an absent \<open>node.source\<close> throws a TypeError.
\<close>

definition ImportDeclaration ::
  "rule_module \<Rightarrow> rule_context \<Rightarrow> string \<Rightarrow> node \<Rightarrow> problems \<Rightarrow> js_error + problems" where
  "ImportDeclaration m context fileName node ps =
     (case source node of
        None \<Rightarrow> Inl TypeError
      | Some lit \<Rightarrow> (let importName = literal_value lit in Inr ps))"

text \<open>
  \<^verbatim>\<open>
  create: function (context) {
      const { report } = context;
      const fileName = context.getFilename();
      if (isAbsolute(fileName)) {
          return { ImportDeclaration(node) { ... } };
      } else {
          return {}
      }
  }
  \<close>
\<close>

definition create :: "rule_module \<Rightarrow> rule_context \<Rightarrow> visitor" where
  "create m context =
     (let report' = report context;
          fileName = getFilename context
      in if isAbsolute m fileName
         then [''ImportDeclaration'' \<mapsto> ImportDeclaration m context fileName]
         else Map.empty)"

subsection \<open>How the engine drives a visitor\<close>

text \<open>
  The engine walks the nodes of a file in order and calls the handler stored under a
  node's type, when there is one; an exception ends the walk.
\<close>

fun traverse :: "visitor \<Rightarrow> node list \<Rightarrow> problems \<Rightarrow> js_error + problems" where
  "traverse v [] ps = Inr ps"
| "traverse v (n # ns) ps =
     (case v (node_type n) of
        None \<Rightarrow> traverse v ns ps
      | Some h \<Rightarrow> (case h n ps of Inl e \<Rightarrow> Inl e | Inr ps' \<Rightarrow> traverse v ns ps'))"

text \<open>
  A sample of \<open>path.isAbsolute\<close>, the POSIX one: a path is absolute when it starts
  with a slash. It serves as the concrete instance in the examples below.
\<close>

definition posix_isAbsolute :: "string \<Rightarrow> bool" where
  "posix_isAbsolute p = (case p of [] \<Rightarrow> False | c # cs \<Rightarrow> c = CHR ''/'')"

section \<open>Properties\<close>

lemma traverse_empty: "traverse Map.empty program ps = Inr ps"
  by (induction program) simp_all

lemma ImportDeclaration_cases:
  "ImportDeclaration m context fileName node ps =
     (if source node = None then Inl TypeError else Inr ps)"
  by (simp add: ImportDeclaration_def split: option.split)

lemma ImportDeclaration_closure:
  "ImportDeclaration m context fileName =
     (\<lambda>node ps. if source node = None then Inl TypeError else Inr ps)"
  by (intro ext) (simp add: ImportDeclaration_cases)

lemma create_absolute:
  "isAbsolute m (getFilename context) \<Longrightarrow>
   create m context =
     [''ImportDeclaration'' \<mapsto> ImportDeclaration m context (getFilename context)]"
  by (simp add: create_def)

lemma create_relative:
  "\<not> isAbsolute m (getFilename context) \<Longrightarrow> create m context = Map.empty"
  by (simp add: create_def)

lemma traverse_handler_conforms:
  "list_all conforms program \<Longrightarrow>
   traverse [''ImportDeclaration'' \<mapsto> ImportDeclaration m context fileName] program ps = Inr ps"
proof (induction program)
  case Nil
  show ?case by simp
next
  case (Cons n ns)
  from Cons.prems have here: "conforms n" and there: "list_all conforms ns"
    by simp_all
  note rest = Cons.IH [OF there]
  show ?case
  proof (cases "node_type n = ''ImportDeclaration''")
    case True
    with here have "source n \<noteq> None"
      by (simp add: conforms_def)
    with True rest show ?thesis
      by (simp add: ImportDeclaration_cases)
  next
    case False
    with rest show ?thesis by simp
  qed
qed

lemma traverse_handler_frame:
  "traverse [''ImportDeclaration'' \<mapsto> ImportDeclaration m context fileName] program ps = Inr ps'
   \<Longrightarrow> ps' = ps"
proof (induction program)
  case Nil
  then show ?case by simp
next
  case (Cons n ns)
  then show ?case
    by (auto simp: ImportDeclaration_cases split: if_splits)
qed

lemma load_module_cwd:
  "load_module (rt\<lparr>process_cwd := Some dir\<rparr>) =
     Inr \<lparr>resolve = require_resolve rt, cwd = dir, isAbsolute = path_isAbsolute rt\<rparr>"
  by (simp add: load_module_def)

lemma create_cwd:
  "create \<lparr>resolve = r, cwd = dir, isAbsolute = a\<rparr> context =
   create \<lparr>resolve = r, cwd = dir', isAbsolute = a\<rparr> context"
  by (simp add: create_def Let_def ImportDeclaration_closure)

text \<open>
  C2. When the file name of the context is not absolute, \<open>create\<close> answers an object
  with no handler at all, so walking any file with it calls nothing: no node is
  inspected, none can make it throw, and the problems stay as they were.
\<close>

theorem create_relative_no_handlers:
  assumes "\<not> isAbsolute m (getFilename context)"
  shows "create m context = Map.empty
       \<and> dom (create m context) = {}
       \<and> (\<forall>program ps. traverse (create m context) program ps = Inr ps)"
  using assms by (simp add: create_def traverse_empty)

theorem create_relative_no_handlers_witness:
  "\<not> posix_isAbsolute ''src/a.js''
   \<and> create \<lparr>resolve = Inr, cwd = ''/work'', isAbsolute = posix_isAbsolute\<rparr>
        \<lparr>report = (#), getFilename = ''src/a.js''\<rparr> = Map.empty
   \<and> traverse
        (create \<lparr>resolve = Inr, cwd = ''/work'', isAbsolute = posix_isAbsolute\<rparr>
           \<lparr>report = (#), getFilename = ''src/a.js''\<rparr>)
        [\<lparr>node_type = ''ImportDeclaration'', source = None\<rparr>,
         \<lparr>node_type = ''ImportDeclaration'',
          source = Some (SimpleLiteral (JString ''./b'') None)\<rparr>]
        [] = Inr []"
proof -
  have rel: "\<not> isAbsolute \<lparr>resolve = Inr, cwd = ''/work'', isAbsolute = posix_isAbsolute\<rparr>
               (getFilename \<lparr>report = (#), getFilename = ''src/a.js''\<rparr>)"
    by (simp add: posix_isAbsolute_def)
  from create_relative_no_handlers [OF rel] show ?thesis
    by (simp add: posix_isAbsolute_def)
qed

text \<open>
  C1. When the file name of the context is absolute, \<open>create\<close> answers an object
  whose only handler is \<open>ImportDeclaration\<close>. Called on an import declaration, the
  handler reads the source's value and returns with the problems untouched, whatever
  the context's \<open>report\<close> does. Walking a file whose nodes conform to the
  declarations leaves the problems as they were, and no walk at all ends with other
  problems than it started with.
\<close>

theorem create_absolute_reports_nothing:
  assumes "isAbsolute m (getFilename context)"
  shows "dom (create m context) = {''ImportDeclaration''}
       \<and> (\<forall>node ps. is_ImportDeclaration node \<longrightarrow>
            (\<exists>h. create m context (node_type node) = Some h \<and> h node ps = Inr ps))
       \<and> (\<forall>program ps. list_all conforms program \<longrightarrow>
            traverse (create m context) program ps = Inr ps)
       \<and> (\<forall>program ps ps'. traverse (create m context) program ps = Inr ps' \<longrightarrow> ps' = ps)"
proof -
  let ?h = "ImportDeclaration m context (getFilename context)"
  have c: "create m context = [''ImportDeclaration'' \<mapsto> ?h]"
    using assms by (rule create_absolute)
  have "dom (create m context) = {''ImportDeclaration''}"
    by (simp add: c)
  moreover have "\<exists>h. create m context (node_type node) = Some h \<and> h node ps = Inr ps"
    if "is_ImportDeclaration node" for node ps
    using that by (auto simp: c is_ImportDeclaration_def ImportDeclaration_cases)
  moreover have "traverse (create m context) program ps = Inr ps"
    if "list_all conforms program" for program ps
    using that by (simp add: c traverse_handler_conforms)
  moreover have "ps' = ps"
    if "traverse (create m context) program ps = Inr ps'" for program ps ps'
    using that unfolding c by (rule traverse_handler_frame)
  ultimately show ?thesis by blast
qed

theorem create_absolute_reports_nothing_witness:
  "posix_isAbsolute ''/work/src/a.js''
   \<and> is_ImportDeclaration
       \<lparr>node_type = ''ImportDeclaration'',
        source = Some (SimpleLiteral (JString ''./b'') None)\<rparr>
   \<and> dom (create \<lparr>resolve = Inr, cwd = ''/work'', isAbsolute = posix_isAbsolute\<rparr>
        \<lparr>report = (#), getFilename = ''/work/src/a.js''\<rparr>) = {''ImportDeclaration''}
   \<and> traverse
       (create \<lparr>resolve = Inr, cwd = ''/work'', isAbsolute = posix_isAbsolute\<rparr>
          \<lparr>report = (#), getFilename = ''/work/src/a.js''\<rparr>)
       [\<lparr>node_type = ''Program'', source = None\<rparr>,
        \<lparr>node_type = ''ImportDeclaration'',
        source = Some (SimpleLiteral (JString ''./b'') None)\<rparr>]
       [] = Inr []"
proof -
  let ?m = "\<lparr>resolve = Inr, cwd = ''/work'', isAbsolute = posix_isAbsolute\<rparr>"
  let ?c = "\<lparr>report = (#), getFilename = ''/work/src/a.js''\<rparr>"
  let ?import = "\<lparr>node_type = ''ImportDeclaration'',
        source = Some (SimpleLiteral (JString ''./b'') None)\<rparr>"
  let ?program = "[\<lparr>node_type = ''Program'', source = None\<rparr>, ?import]"
  have absolute: "isAbsolute ?m (getFilename ?c)"
    by (simp add: posix_isAbsolute_def)
  have import: "is_ImportDeclaration ?import"
    by (simp add: is_ImportDeclaration_def)
  have program: "list_all conforms ?program"
    by (simp add: conforms_def)
  note silent = create_absolute_reports_nothing [OF absolute]
  from silent have "dom (create ?m ?c) = {''ImportDeclaration''}"
    by blast
  moreover from silent program have "traverse (create ?m ?c) ?program [] = Inr []"
    by blast
  ultimately show ?thesis
    using import by (simp add: posix_isAbsolute_def)
qed

text \<open>
  C3, as amended. Loading the module reads the working directory once and keeps it in
  the constant \<open>cwd\<close>, which nothing reads again. \<open>create\<close> judges the file name
  by \<open>path.isAbsolute\<close> applied to \<open>context.getFilename()\<close> and by nothing else: it
  answers a handler exactly when that call says the name is absolute, and the judgement
  is the same under every other working directory.
\<close>

theorem create_judges_by_isAbsolute_alone:
  assumes "load_module rt = Inr m"
  shows "process_cwd rt = Some (cwd m)
       \<and> (\<forall>context. (create m context \<noteq> Map.empty) = path_isAbsolute rt (getFilename context))
       \<and> (\<forall>dir context. \<exists>m'.
            load_module (rt\<lparr>process_cwd := Some dir\<rparr>) = Inr m'
            \<and> (create m' context = Map.empty) = (create m context = Map.empty))"
proof -
  from assms obtain dir0 where
    dir0: "process_cwd rt = Some dir0" and
    m: "m = \<lparr>resolve = require_resolve rt, cwd = dir0, isAbsolute = path_isAbsolute rt\<rparr>"
    by (auto simp: load_module_def split: option.splits)
  have "process_cwd rt = Some (cwd m)"
    by (simp add: dir0 m)
  moreover have "(create m c \<noteq> Map.empty) = path_isAbsolute rt (getFilename c)" for c
    by (simp add: m create_def Let_def)
  moreover have "\<exists>m'. load_module (rt\<lparr>process_cwd := Some dir\<rparr>) = Inr m'
      \<and> (create m' c = Map.empty) = (create m c = Map.empty)"
    for dir c
    unfolding load_module_cwd m using create_cwd [of _ dir _ _ dir0] by simp
  ultimately show ?thesis by blast
qed

theorem create_judges_by_isAbsolute_alone_witness:
  "load_module
     \<lparr>require_resolve = Inr, process_cwd = Some ''/work'',
       path_isAbsolute = posix_isAbsolute\<rparr> =
     Inr \<lparr>resolve = Inr, cwd = ''/work'', isAbsolute = posix_isAbsolute\<rparr>
   \<and> create \<lparr>resolve = Inr, cwd = ''/work'', isAbsolute = posix_isAbsolute\<rparr>
       \<lparr>report = (#), getFilename = ''/work/src/a.js''\<rparr> \<noteq> Map.empty
   \<and> create \<lparr>resolve = Inr, cwd = ''/work'', isAbsolute = posix_isAbsolute\<rparr>
       \<lparr>report = (#), getFilename = ''src/a.js''\<rparr> = Map.empty"
proof -
  let ?rt = "\<lparr>require_resolve = Inr, process_cwd = Some ''/work'',
       path_isAbsolute = posix_isAbsolute\<rparr>"
  let ?m = "\<lparr>resolve = Inr, cwd = ''/work'', isAbsolute = posix_isAbsolute\<rparr>"
  have loaded: "load_module ?rt = Inr ?m"
    by (simp add: load_module_def)
  from create_judges_by_isAbsolute_alone [OF loaded]
  have judged: "(create ?m c \<noteq> Map.empty) = path_isAbsolute ?rt (getFilename c)" for c
    by blast
  have "create ?m \<lparr>report = (#), getFilename = ''/work/src/a.js''\<rparr> \<noteq> Map.empty"
    by (simp add: judged posix_isAbsolute_def)
  moreover have "create ?m \<lparr>report = (#), getFilename = ''src/a.js''\<rparr> = Map.empty"
    using judged [of "\<lparr>report = (#), getFilename = ''src/a.js''\<rparr>"]
    by (simp add: posix_isAbsolute_def)
  ultimately show ?thesis
    using loaded by simp
qed

text \<open>
  C3 as it was stated fails: no two working directories make \<open>create\<close> judge a file
  name differently. At the relative name \<open>a.js\<close> the answer is the empty object both
  when the module was loaded in \<open>/\<close> and when it was loaded in \<open>/work/src\<close>.
\<close>

theorem create_judgement_depends_on_cwd_refuted:
  "create \<lparr>resolve = Inr, cwd = ''/'', isAbsolute = posix_isAbsolute\<rparr>
     \<lparr>report = (#), getFilename = ''a.js''\<rparr> = Map.empty
   \<and> create \<lparr>resolve = Inr, cwd = ''/work/src'', isAbsolute = posix_isAbsolute\<rparr>
     \<lparr>report = (#), getFilename = ''a.js''\<rparr> = Map.empty
   \<and> \<not> (\<exists>rt dir dir' m m' context.
          load_module (rt\<lparr>process_cwd := Some dir\<rparr>) = Inr m
        \<and> load_module (rt\<lparr>process_cwd := Some dir'\<rparr>) = Inr m'
        \<and> (create m context = Map.empty) \<noteq> (create m' context = Map.empty))"
proof -
  have "create \<lparr>resolve = Inr, cwd = ''/'', isAbsolute = posix_isAbsolute\<rparr>
     \<lparr>report = (#), getFilename = ''a.js''\<rparr> = Map.empty"
    by (rule create_relative) (simp add: posix_isAbsolute_def)
  moreover have "create \<lparr>resolve = Inr, cwd = ''/work/src'', isAbsolute = posix_isAbsolute\<rparr>
     \<lparr>report = (#), getFilename = ''a.js''\<rparr> = Map.empty"
    by (rule create_relative) (simp add: posix_isAbsolute_def)
  moreover have "(create m c = Map.empty) = (create m' c = Map.empty)"
    if "load_module (rt\<lparr>process_cwd := Some dir\<rparr>) = Inr m"
      and "load_module (rt\<lparr>process_cwd := Some dir'\<rparr>) = Inr m'"
    for rt dir dir' m m' c
    using that unfolding load_module_cwd using create_cwd [of _ dir _ _ dir'] by auto
  ultimately show ?thesis by blast
qed

text \<open>
  C4. What the rule does is independent of the working directory the module was loaded
  in. For any two directories the module loads, \<open>create\<close> answers the same visitor
  object for every context, the handler gives the same result on every node (the
  problems unchanged, or a TypeError), and every walk ends the same way.
\<close>

theorem rule_independent_of_cwd:
  "\<exists>m1 m2.
      load_module (rt\<lparr>process_cwd := Some dir1\<rparr>) = Inr m1
    \<and> load_module (rt\<lparr>process_cwd := Some dir2\<rparr>) = Inr m2
    \<and> create m1 context = create m2 context
    \<and> (\<forall>fileName node ps.
          ImportDeclaration m1 context fileName node ps =
            ImportDeclaration m2 context fileName node ps
        \<and> ImportDeclaration m1 context fileName node ps \<in> {Inr ps, Inl TypeError})
    \<and> (\<forall>program ps.
          traverse (create m1 context) program ps = traverse (create m2 context) program ps)"
proof -
  let ?m1 = "\<lparr>resolve = require_resolve rt, cwd = dir1, isAbsolute = path_isAbsolute rt\<rparr>"
  let ?m2 = "\<lparr>resolve = require_resolve rt, cwd = dir2, isAbsolute = path_isAbsolute rt\<rparr>"
  have same: "create ?m1 context = create ?m2 context"
    by (rule create_cwd)
  have "load_module (rt\<lparr>process_cwd := Some dir1\<rparr>) = Inr ?m1"
    by (rule load_module_cwd)
  moreover have "load_module (rt\<lparr>process_cwd := Some dir2\<rparr>) = Inr ?m2"
    by (rule load_module_cwd)
  moreover have "ImportDeclaration ?m1 context fileName node ps =
      ImportDeclaration ?m2 context fileName node ps
    \<and> ImportDeclaration ?m1 context fileName node ps \<in> {Inr ps, Inl TypeError}"
    for fileName node ps
    by (simp add: ImportDeclaration_cases)
  moreover have "traverse (create ?m1 context) program ps = traverse (create ?m2 context) program ps"
    for program ps
    by (simp only: same)
  ultimately show ?thesis
    using same by blast
qed

theorem rule_independent_of_cwd_witness:
  "create \<lparr>resolve = Inr, cwd = ''/'', isAbsolute = posix_isAbsolute\<rparr>
     \<lparr>report = (#), getFilename = ''/work/src/a.js''\<rparr> =
   create \<lparr>resolve = Inr, cwd = ''/work/src'', isAbsolute = posix_isAbsolute\<rparr>
     \<lparr>report = (#), getFilename = ''/work/src/a.js''\<rparr>
   \<and> traverse
       (create \<lparr>resolve = Inr, cwd = ''/'', isAbsolute = posix_isAbsolute\<rparr>
          \<lparr>report = (#), getFilename = ''/work/src/a.js''\<rparr>)
       [\<lparr>node_type = ''ImportDeclaration'',
        source = Some (SimpleLiteral (JString ''./b'') None)\<rparr>] [] =
     traverse
       (create \<lparr>resolve = Inr, cwd = ''/work/src'', isAbsolute = posix_isAbsolute\<rparr>
          \<lparr>report = (#), getFilename = ''/work/src/a.js''\<rparr>)
       [\<lparr>node_type = ''ImportDeclaration'',
        source = Some (SimpleLiteral (JString ''./b'') None)\<rparr>] []"
proof -
  let ?rt = "\<lparr>require_resolve = Inr, process_cwd = Some ''/work'',
       path_isAbsolute = posix_isAbsolute\<rparr>"
  let ?c = "\<lparr>report = (#), getFilename = ''/work/src/a.js''\<rparr>"
  from rule_independent_of_cwd [of "''/''" ?rt "''/work/src''" ?c]
  show ?thesis
    by (simp add: load_module_def)
qed

end
